theory Spec2Isabelle
  imports Complex_Main
begin

section \<open>Numbers\<close>

text \<open>
  Prices, targets and PNL are Python floats in the source. They are modelled as exact
  real numbers, so binary rounding error is outside this model. \<open>round(x, 2)\<close> is
  Python's rounding to two decimals, ties going to the even neighbour.
\<close>

type_synonym float = real

definition py_round :: "float \<Rightarrow> int" where
  "py_round x = (let f = \<lfloor>x\<rfloor>; d = x - of_int f in
     if d < 1 / 2 then f else if 1 / 2 < d then f + 1 else if even f then f else f + 1)"

definition round2 :: "float \<Rightarrow> float" where
  "round2 x = of_int (py_round (x * 100)) / 100"

definition round4 :: "float \<Rightarrow> float" where
  "round4 x = of_int (py_round (x * 10000)) / 10000"

text \<open>
  The pandas columns of the ADX divide by values that can be zero, which in floats gives
  an infinity or NaN and no exception; where such a value can arise the model carries it.
  A zero divisor is the positive zero (it is a sum of non-negative terms).
\<close>

datatype xfloat = Fin float | PInf | NInf | NaN

fun xdiv :: "xfloat \<Rightarrow> xfloat \<Rightarrow> xfloat" where
  "xdiv (Fin a) (Fin b) =
     (if b \<noteq> 0 then Fin (a / b) else if a = 0 then NaN else if 0 < a then PInf else NInf)"
| "xdiv (Fin a) PInf = Fin 0"
| "xdiv (Fin a) NInf = Fin 0"
| "xdiv PInf (Fin b) = (if 0 \<le> b then PInf else NInf)"
| "xdiv NInf (Fin b) = (if 0 \<le> b then NInf else PInf)"
| "xdiv a b = NaN"

fun xadd :: "xfloat \<Rightarrow> xfloat \<Rightarrow> xfloat" where
  "xadd (Fin a) (Fin b) = Fin (a + b)"
| "xadd NaN b = NaN"
| "xadd a NaN = NaN"
| "xadd PInf NInf = NaN"
| "xadd NInf PInf = NaN"
| "xadd PInf b = PInf"
| "xadd a PInf = PInf"
| "xadd NInf b = NInf"
| "xadd a NInf = NInf"

fun xneg :: "xfloat \<Rightarrow> xfloat" where
  "xneg (Fin a) = Fin (- a)"
| "xneg PInf = NInf"
| "xneg NInf = PInf"
| "xneg NaN = NaN"

definition xsub :: "xfloat \<Rightarrow> xfloat \<Rightarrow> xfloat" where
  "xsub a b = xadd a (xneg b)"

fun xabs :: "xfloat \<Rightarrow> xfloat" where
  "xabs (Fin a) = Fin \<bar>a\<bar>"
| "xabs PInf = PInf"
| "xabs NInf = PInf"
| "xabs NaN = NaN"

text \<open>\<open>100 * x\<close> and \<open>round(x, 2)\<close> on such a value: an infinity and NaN stay as they are.\<close>

fun xhundred :: "xfloat \<Rightarrow> xfloat" where
  "xhundred (Fin a) = Fin (100 * a)"
| "xhundred a = a"

fun xround2 :: "xfloat \<Rightarrow> xfloat" where
  "xround2 (Fin a) = Fin (round2 a)"
| "xround2 a = a"

section \<open>The Position table (market/models.py)\<close>

text \<open>
  One row of the \<open>Position\<close> model. Nullable columns are options, \<open>status\<close> is the
  stored string, the two \<open>PositiveIntegerField\<close>s are naturals, timestamps are clock
  readings. The table is the list of its rows in primary-key order; a row is identified
  by its index.
\<close>

record position =
  symbol :: string
  exchange :: string
  token :: string
  entry_price :: "float option"
  entry_datetime :: nat
  exit_price :: "float option"
  exit_datetime :: "nat option"
  target :: "float option"
  stoploss :: "float option"
  mtm :: float
  status :: string
  lots :: nat
  quantity :: nat

definition is_open :: "string \<Rightarrow> position \<Rightarrow> bool" where
  "is_open tok p = (token p = tok \<and> status p = ''OPEN'')"

text \<open>
  \<open>Position.objects.filter(token=token, status="OPEN").first()\<close> in \<open>on_data\<close>: an
  unordered queryset, so \<open>first()\<close> takes the matching row of least primary key.
\<close>

fun first_open :: "position list \<Rightarrow> string \<Rightarrow> nat option" where
  "first_open [] tok = None"
| "first_open (p # ps) tok =
     (if is_open tok p then Some 0 else map_option Suc (first_open ps tok))"

text \<open>
  \<open>get_open_position_for_token\<close>: the same filter ordered by \<open>-entry_datetime\<close>, so the
  matching row opened last; among rows of equal \<open>entry_datetime\<close> the model takes the one of
  least primary key.
\<close>

fun get_open_position_for_token :: "position list \<Rightarrow> string \<Rightarrow> nat option" where
  "get_open_position_for_token [] tok = None"
| "get_open_position_for_token (p # ps) tok =
     (case get_open_position_for_token ps tok of
        None \<Rightarrow> (if is_open tok p then Some 0 else None)
      | Some j \<Rightarrow>
          (if is_open tok p \<and> entry_datetime (ps ! j) \<le> entry_datetime p then Some 0
           else Some (Suc j)))"

section \<open>Signals and messages\<close>

text \<open>
  The text of a reason: the fixed strings of \<open>on_data\<close>, and the formatted strings of the
  strategies, kept as the rule that fired and the number it prints.
\<close>

datatype reason_text =
    Text string
  | DI_plus_above float
  | DI_minus_above float
  | DI_plus_fell float
  | DI_minus_fell float
  | MACD_above float
  | MACD_below float

record signal =
  action :: string
  reason :: reason_text
  confidence :: "string option"

text \<open>
  What \<open>consumer.send\<close> is given, by the \<open>status\<close> key of the JSON object (the LTP
  message has none), with the fields of the payload in the order of the source.
\<close>

datatype event =
    Ltp string string float
  | Mtm_update string string float float float string
  | Auto_exit string string float reason_text float
  | Position_opened string string string float float float nat nat
  | Position_closed string string float nat float nat reason_text
  | Signal_position_opened string string string float nat nat signal
  | Signal_position_closed string string float float signal
  | No_signal string string string
  | Live_indicators_update string string "float option" "float option"
      "float option \<times> float option \<times> float option"
      "xfloat option \<times> xfloat option \<times> xfloat option"
  | Subscribed "string list" "string list" string nat
  | No_new_subscriptions
  | Symbol_not_found string
  | Error_message string

section \<open>The consumer (market/WebSocketUtility/consumers.py)\<close>

record instrument =
  instr_symbol :: "string option"
  exch_seg :: "string option"
  instr_token :: "string option"

text \<open>
  The state one \<open>MarketConsumer\<close> works on: its attributes, the Position table it reads
  and writes (\<open>db\<close>), the messages it has sent to the client (\<open>sent\<close>, oldest first) and
  the subscribe requests it has made on the feed socket (\<open>feed\<close>, oldest first).
  \<open>token_to_symbol\<close> is \<open>None\<close> while the attribute does not exist (it is set only when
  the instrument list has been downloaded).
\<close>

record consumer =
  subscribed_tokens :: "nat \<rightharpoonup> string set"
  token_symbol_map :: "string \<rightharpoonup> string"
  token_to_symbol :: "(string \<rightharpoonup> string) option"
  instrument_list :: "instrument list option"
  smart_api :: bool
  monitor_symbols :: "string list"
  indicator_refresh_task :: bool
  db :: "position list"
  sent :: "event list"
  feed :: "(nat \<times> string list) list"

definition send :: "event \<Rightarrow> consumer \<Rightarrow> consumer" where
  "send e s = s\<lparr>sent := sent s @ [e]\<rparr>"

subsection \<open>open_position_db\<close>

text \<open>
  \<open>token_symbol_map.get(t) or token_to_symbol.get(t) or t\<close>: a missing or empty name is
  falsy. \<open>None\<close> is the AttributeError of reading \<open>token_to_symbol\<close> before it exists, which
  the function's \<open>except\<close> turns into the result \<open>None\<close>.
\<close>

definition symbol_name_of :: "consumer \<Rightarrow> string \<Rightarrow> string option" where
  "symbol_name_of s symbol_token =
     (case token_symbol_map s symbol_token of
        Some n \<Rightarrow> if n \<noteq> [] then Some n else
          (case token_to_symbol s of
             None \<Rightarrow> None
           | Some m \<Rightarrow> (case m symbol_token of
                Some n' \<Rightarrow> if n' \<noteq> [] then Some n' else Some symbol_token
              | None \<Rightarrow> Some symbol_token))
      | None \<Rightarrow>
          (case token_to_symbol s of
             None \<Rightarrow> None
           | Some m \<Rightarrow> (case m symbol_token of
                Some n' \<Rightarrow> if n' \<noteq> [] then Some n' else Some symbol_token
              | None \<Rightarrow> Some symbol_token)))"

definition risk_reward :: float where
  "risk_reward = 3 / 2"

definition risk_percent :: float where
  "risk_percent = 1 / 100"

definition reward_percent :: float where
  "reward_percent = risk_percent * risk_reward"

definition target_for :: "string \<Rightarrow> float \<Rightarrow> float" where
  "target_for side entry =
     (if side = ''LONG'' then entry * (1 + reward_percent) else entry * (1 - reward_percent))"

definition stoploss_for :: "string \<Rightarrow> float \<Rightarrow> float" where
  "stoploss_for side entry =
     (if side = ''LONG'' then entry * (1 - risk_percent) else entry * (1 + risk_percent))"

definition open_position_db ::
  "nat \<Rightarrow> string \<Rightarrow> string \<Rightarrow> float \<Rightarrow> nat \<Rightarrow> nat \<Rightarrow> consumer \<Rightarrow> consumer \<times> position option" where
  "open_position_db now symbol_token side entry qty lts s =
     (case symbol_name_of s symbol_token of
        None \<Rightarrow> (s, None)
      | Some symbol_name \<Rightarrow>
          (let tgt = target_for side entry;
               sl = stoploss_for side entry;
               p = \<lparr>symbol = symbol_name, exchange = ''NSE'', token = symbol_token,
                    entry_price = Some entry, entry_datetime = now,
                    exit_price = None, exit_datetime = None,
                    target = Some (round2 tgt), stoploss = Some (round2 sl),
                    mtm = 0, status = ''OPEN'', lots = lts, quantity = qty\<rparr>
           in (send (Position_opened symbol_token symbol_name side entry (round2 tgt) (round2 sl)
                       lts qty)
                 (s\<lparr>db := db s @ [p]\<rparr>),
               Some p)))"

subsection \<open>close_position_db\<close>

definition realized_pnl :: "position \<Rightarrow> float \<Rightarrow> float" where
  "realized_pnl p exit_p =
     (case entry_price p of
        Some e \<Rightarrow> if e < exit_p then (exit_p - e) * of_nat (quantity p)
                  else (e - exit_p) * of_nat (quantity p)
      | None \<Rightarrow> 0)"

definition close_position_db ::
  "nat \<Rightarrow> string \<Rightarrow> float \<Rightarrow> reason_text \<Rightarrow> consumer \<Rightarrow> consumer \<times> position option" where
  "close_position_db now symbol_token exit_p exit_reason s =
     (case get_open_position_for_token (db s) symbol_token of
        None \<Rightarrow> (s, None)
      | Some i \<Rightarrow>
          (let p = db s ! i;
               p' = p\<lparr>exit_price := Some exit_p, exit_datetime := Some now,
                      mtm := round2 (realized_pnl p exit_p), status := ''CLOSED''\<rparr>;
               symbol_name = (case token_symbol_map s symbol_token of
                                None \<Rightarrow> symbol_token | Some n \<Rightarrow> n)
           in (send (Position_closed symbol_token symbol_name (round2 exit_p) now (mtm p')
                       (quantity p') exit_reason)
                 (s\<lparr>db := (db s)[i := p']\<rparr>),
               Some p')))"

subsection \<open>handle_strategy_signal\<close>

definition handle_strategy_signal ::
  "nat \<Rightarrow> string \<Rightarrow> signal option \<Rightarrow> float option \<Rightarrow> consumer \<Rightarrow> consumer" where
  "handle_strategy_signal now symbol_token sig latest_close s =
     (let symbol_name = (case token_symbol_map s symbol_token of
                           None \<Rightarrow> symbol_token | Some n \<Rightarrow> n);
          open_pos = get_open_position_for_token (db s) symbol_token
      in case sig of
           None \<Rightarrow>
             send (No_signal symbol_token symbol_name
                     (if open_pos \<noteq> None then ''OPEN'' else ''NONE'')) s
         | Some sg \<Rightarrow>
             (let price = (case latest_close of None \<Rightarrow> 106265 / 100 | Some c \<Rightarrow> c)
              in if (action sg = ''BUY'' \<or> action sg = ''SELL'') \<and> open_pos = None then
                   (let side = (if action sg = ''BUY'' then ''LONG'' else ''SHORT'');
                        r = open_position_db now symbol_token side price 50 1 s
                    in case snd r of
                         None \<Rightarrow> fst r
                       | Some p \<Rightarrow>
                           send (Signal_position_opened symbol_name symbol_token side price 1 50 sg)
                             (fst r))
                 else if action sg = ''EXIT'' \<and> open_pos \<noteq> None then
                   (let r = close_position_db now symbol_token price (reason sg) s
                    in case snd r of
                         None \<Rightarrow> fst r
                       | Some closed_pos \<Rightarrow>
                           send (Signal_position_closed symbol_name symbol_token price
                                   (mtm closed_pos) sg)
                             (fst r))
                 else s))"

section \<open>The tick handler (market/Datafeed/connection.py)\<close>

record tick =
  tick_token :: string
  last_traded_price :: "int option"

definition mtm_value :: "float \<Rightarrow> float \<Rightarrow> nat \<Rightarrow> float" where
  "mtm_value ltp entry qty =
     (if entry \<le> ltp then (ltp - entry) * of_nat qty else (entry - ltp) * of_nat qty)"

text \<open>
  Step 2 of \<open>on_data\<close> for the open row \<open>i\<close> with entry price \<open>entry\<close>: the new MTM is
  saved, and reported, when it is more than 0.05 away from the stored one.
\<close>

definition update_mtm :: "string \<Rightarrow> string \<Rightarrow> float \<Rightarrow> float \<Rightarrow> nat \<Rightarrow> consumer \<Rightarrow> consumer" where
  "update_mtm tok sname ltp entry i s =
     (let p = db s ! i;
          m = mtm_value ltp entry (quantity p)
      in if 5 / 100 < \<bar>m - mtm p\<bar> then
           send (Mtm_update tok sname (round2 ltp) (round2 m) (round2 entry)
                   (if entry \<le> ltp then ''LONG'' else ''SHORT''))
             (s\<lparr>db := (db s)[i := p\<lparr>mtm := round2 m\<rparr>]\<rparr>)
         else s)"

definition target_hit :: "float \<Rightarrow> float \<Rightarrow> float \<Rightarrow> bool" where
  "target_hit ltp tgt entry =
     ((tgt * (99 / 100) \<le> ltp \<and> entry \<le> ltp) \<or> (ltp \<le> tgt * (101 / 100) \<and> ltp \<le> entry))"

definition stoploss_hit :: "float \<Rightarrow> float \<Rightarrow> float \<Rightarrow> bool" where
  "stoploss_hit ltp sl entry = ((ltp \<le> sl \<and> ltp \<le> entry) \<or> (sl \<le> ltp \<and> entry \<le> ltp))"

text \<open>
  Step 3 of \<open>on_data\<close>: \<open>exit_reason\<close> and \<open>should_exit\<close> are set together, so the result
  is the reason when the position must be closed; the stoploss test runs second and its
  reason replaces the target's.
\<close>

definition exit_decision :: "position \<Rightarrow> float \<Rightarrow> float \<Rightarrow> reason_text option" where
  "exit_decision p ltp entry =
     (let r = (case target p of
                 Some tgt \<Rightarrow> if target_hit ltp tgt entry then Some (Text ''Target reached (test)'')
                             else None
               | None \<Rightarrow> None)
      in case stoploss p of
           Some sl \<Rightarrow> if stoploss_hit ltp sl entry then Some (Text ''Stoploss hit'') else r
         | None \<Rightarrow> r)"

definition on_data :: "nat \<Rightarrow> tick \<Rightarrow> consumer \<Rightarrow> consumer" where
  "on_data now message s =
     (case last_traded_price message of
        None \<Rightarrow> s
      | Some ltp_raw \<Rightarrow>
          if ltp_raw = 0 then s
          else
            (let tok = tick_token message;
                 ltp = of_int ltp_raw / 100;
                 sname = (case token_symbol_map s tok of None \<Rightarrow> ''UNKNOWN'' | Some n \<Rightarrow> n);
                 s1 = send (Ltp sname tok (round2 ltp)) s
             in case first_open (db s1) tok of
                  None \<Rightarrow> s1
                | Some i \<Rightarrow>
                    (case entry_price (db s1 ! i) of
                       None \<Rightarrow> s1
                     | Some entry \<Rightarrow>
                         (let s2 = update_mtm tok sname ltp entry i s1;
                              open_position = db s2 ! i
                          in case exit_decision open_position ltp entry of
                               None \<Rightarrow> s2
                             | Some exit_reason \<Rightarrow>
                                 send (Auto_exit tok sname (round2 ltp) exit_reason
                                         (mtm open_position))
                                   (fst (close_position_db now tok ltp exit_reason s2))))))"

section \<open>Example states\<close>

text \<open>
  A consumer after login whose client has subscribed to SBIN-EQ (token 3045); the
  Position table is empty.
\<close>

definition example_consumer :: consumer where
  "example_consumer =
     \<lparr>subscribed_tokens = Map.empty, token_symbol_map = [''3045'' \<mapsto> ''SBIN-EQ''],
      token_to_symbol = None, instrument_list = None, smart_api = True,
      monitor_symbols = [], indicator_refresh_task = False, db = [], sent = [], feed = []\<rparr>"

text \<open>The example consumer after a LONG position of 50 shares of SBIN-EQ was opened at 100.\<close>

definition example_opened :: consumer where
  "example_opened = fst (open_position_db 7 ''3045'' ''LONG'' 100 50 1 example_consumer)"


fun is_close_event :: "event \<Rightarrow> bool" where
  "is_close_event (Position_closed tok sn x t pnl q r) = True"
| "is_close_event ev = False"

text \<open>
  How many positions the consumer has reported closed: \<open>close_position_db\<close> sends one
  \<open>position_closed\<close> message for each row it closes.
\<close>

definition positions_closed :: "consumer \<Rightarrow> nat" where
  "positions_closed s = length (filter is_close_event (sent s))"

section \<open>Histories of the Position table\<close>

text \<open>
  The operations that write the Position table, with the clock reading and the arguments
  each is called with; a history applies them in order.
\<close>

datatype store_op =
    Tick nat tick
  | Strategy_signal nat string "signal option" "float option"
  | Open_position nat string string float nat nat
  | Close_position nat string float reason_text

fun apply_op :: "store_op \<Rightarrow> consumer \<Rightarrow> consumer" where
  "apply_op (Tick now msg) s = on_data now msg s"
| "apply_op (Strategy_signal now tok sg latest_close) s =
     handle_strategy_signal now tok sg latest_close s"
| "apply_op (Open_position now tok side entry qty lts) s =
     fst (open_position_db now tok side entry qty lts s)"
| "apply_op (Close_position now tok exit_p r) s = fst (close_position_db now tok exit_p r s)"

fun run :: "store_op list \<Rightarrow> consumer \<Rightarrow> consumer" where
  "run [] s = s"
| "run (x # xs) s = run xs (apply_op x s)"

definition mtm_nonneg :: "position list \<Rightarrow> bool" where
  "mtm_nonneg ps = list_all (\<lambda>p. 0 \<le> mtm p) ps"

text \<open>
  A history of the example consumer: a BUY signal at the close 100 opens a LONG position
  of SBIN-EQ, and the tick at 99.00 closes it at a loss.
\<close>

definition example_history :: "store_op list" where
  "example_history =
     [Strategy_signal 7 ''3045''
        (Some \<lparr>action = ''BUY'', reason = DI_plus_above 25, confidence = Some ''high''\<rparr>)
        (Some 100),
      Tick 8 \<lparr>tick_token = ''3045'', last_traded_price = Some 9900\<rparr>]"

section \<open>The Strategy Engine (market/Strategies/strategies.py)\<close>

text \<open>
  A value of an indicator dictionary: \<open>None\<close>, a string (the placeholder
  \<open>"Not enough data"\<close>) or a number. A dictionary maps its keys to such values, and
  \<open>get\<close> of a missing key is \<open>None\<close>.
\<close>

datatype pyval = PNone | PStr string | PNum float

definition dict_get :: "(string \<rightharpoonup> pyval) \<Rightarrow> string \<Rightarrow> pyval" where
  "dict_get d k = (case d k of None \<Rightarrow> PNone | Some v \<Rightarrow> v)"

definition check_adx_strategy :: "(string \<rightharpoonup> pyval) \<Rightarrow> string \<Rightarrow> signal option" where
  "check_adx_strategy adx_info current_side =
     (case dict_get adx_info ''di_plus'' of
        PNum di_plus \<Rightarrow>
          (case dict_get adx_info ''di_minus'' of
             PNum di_minus \<Rightarrow>
               if current_side = ''NONE'' then
                 (if 20 < di_plus \<and> di_minus < di_plus then
                    Some \<lparr>action = ''BUY'', reason = DI_plus_above di_plus,
                          confidence = Some ''high''\<rparr>
                  else if 20 < di_minus \<and> di_plus < di_minus then
                    Some \<lparr>action = ''SELL'', reason = DI_minus_above di_minus,
                          confidence = Some ''high''\<rparr>
                  else None)
               else if current_side = ''LONG'' then
                 (if di_plus < 18 then
                    Some \<lparr>action = ''EXIT'', reason = DI_plus_fell di_plus, confidence = None\<rparr>
                  else None)
               else if current_side = ''SHORT'' then
                 (if di_minus < 18 then
                    Some \<lparr>action = ''EXIT'', reason = DI_minus_fell di_minus, confidence = None\<rparr>
                  else None)
               else None
           | _ \<Rightarrow> None)
      | _ \<Rightarrow> None)"


section \<open>The Indicator Engine (market/Strategies/indicators.py)\<close>

text \<open>\<open>np.diff\<close>: the differences of consecutive elements.\<close>

fun diff :: "float list \<Rightarrow> float list" where
  "diff (x # y # xs) = (y - x) # diff (y # xs)"
| "diff xs = []"

text \<open>
  \<open>100. - 100. / (1. + rs)\<close> with \<open>rs = up / down if down != 0 else np.inf\<close>: at infinite
  \<open>rs\<close> the quotient is 0 and the value 100.
\<close>

definition rsi_value :: "float \<Rightarrow> float \<Rightarrow> float" where
  "rsi_value up down = (if down \<noteq> 0 then 100 - 100 / (1 + up / down) else 100)"

text \<open>The seed: the sums over \<open>deltas[:period+1]\<close>, each divided by \<open>period\<close>.\<close>

definition rsi_seed :: "float list \<Rightarrow> nat \<Rightarrow> float \<times> float" where
  "rsi_seed deltas period =
     (let seed = take (period + 1) deltas
      in (sum_list (filter (\<lambda>d. 0 \<le> d) seed) / of_nat period,
          - sum_list (filter (\<lambda>d. d < 0) seed) / of_nat period))"

text \<open>One pass of the loop body: the new averages \<open>(up, down)\<close>.\<close>

definition rsi_step :: "nat \<Rightarrow> float \<times> float \<Rightarrow> float \<Rightarrow> float \<times> float" where
  "rsi_step period ud delta =
     (let upval = (if 0 < delta then delta else 0);
          downval = (if 0 < delta then 0 else - delta)
      in ((fst ud * (of_nat period - 1) + upval) / of_nat period,
          (snd ud * (of_nat period - 1) + downval) / of_nat period))"

text \<open>The loop over \<open>i = period, ..., len(closes) - 1\<close>: the values it stores in \<open>rsi[i]\<close>.\<close>

fun rsi_loop :: "nat \<Rightarrow> float \<times> float \<Rightarrow> float list \<Rightarrow> float list" where
  "rsi_loop period ud [] = []"
| "rsi_loop period ud (delta # ds) =
     (let ud' = rsi_step period ud delta
      in rsi_value (fst ud') (snd ud') # rsi_loop period ud' ds)"

text \<open>
  \<open>calculate_rsi\<close>, for a period of at least 1 (every caller uses the default 14): the
  loop reads \<open>deltas[i - 1]\<close>, so it runs over \<open>deltas[period-1:]\<close>.
\<close>

definition calculate_rsi :: "float list \<Rightarrow> nat \<Rightarrow> float option" where
  "calculate_rsi closes period =
     (if length closes < period + 1 then None
      else
        (let deltas = diff closes;
             ud = rsi_seed deltas period;
             rsi = replicate period (rsi_value (fst ud) (snd ud))
                   @ rsi_loop period ud (drop (period - 1) deltas)
         in if 0 < length rsi then Some (last rsi) else None))"

text \<open>
  The RSI of the spec, in its words: absent below \<open>period + 1\<close> closes; the average gain
  and loss seeded from the first \<open>period\<close> deltas; then smoothed forward one sample at a
  time over the deltas that follow; the final value returned.
\<close>

definition rsi_seed_spec :: "float list \<Rightarrow> nat \<Rightarrow> float \<times> float" where
  "rsi_seed_spec deltas period =
     (let seed = take period deltas
      in (sum_list (filter (\<lambda>d. 0 \<le> d) seed) / of_nat period,
          - sum_list (filter (\<lambda>d. d < 0) seed) / of_nat period))"

definition rsi_spec :: "float list \<Rightarrow> nat \<Rightarrow> float option" where
  "rsi_spec closes period =
     (if length closes < period + 1 then None
      else
        (let deltas = diff closes;
             ud = foldl (rsi_step period) (rsi_seed_spec deltas period) (drop period deltas)
         in Some (rsi_value (fst ud) (snd ud))))"

text \<open>Sixteen closes: fourteen rises of 1, one more rise of 1, then a fall of 1.\<close>

definition rise_then_fall :: "float list" where
  "rise_then_fall = [0, 1, 2, 3, 4, 5, 6, 7, 8, 9, 10, 11, 12, 13, 14, 13]"

section \<open>The Subscription Registry (handle_subscribe)\<close>

definition exchange_map :: "string \<rightharpoonup> nat" where
  "exchange_map =
     [''NSE'' \<mapsto> 1, ''NFO'' \<mapsto> 2, ''BSE'' \<mapsto> 3, ''BFO'' \<mapsto> 4, ''MCX'' \<mapsto> 5, ''NCO'' \<mapsto> 5,
      ''NCDEX'' \<mapsto> 7, ''CDS'' \<mapsto> 13]"

definition exchange_type_of :: "string \<Rightarrow> nat" where
  "exchange_type_of ex = (case exchange_map ex of None \<Rightarrow> 1 | Some n \<Rightarrow> n)"

text \<open>
  The inner loop: the first instrument of the list with the symbol and the exchange
  segment ends the search, and gives its token when that is a non-empty string.
\<close>

fun resolve_symbol :: "instrument list \<Rightarrow> string \<Rightarrow> string \<Rightarrow> string option" where
  "resolve_symbol [] ts ex = None"
| "resolve_symbol (instr # rest) ts ex =
     (if instr_symbol instr = Some ts \<and> exch_seg instr = Some ex then
        (case instr_token instr of
           Some t \<Rightarrow> if t \<noteq> [] then Some t else None
         | None \<Rightarrow> None)
      else resolve_symbol rest ts ex)"

text \<open>
  \<open>exchange_type not in self.subscribed_tokens or token not in
  self.subscribed_tokens[exchange_type]\<close>.
\<close>

definition not_subscribed :: "(nat \<rightharpoonup> string set) \<Rightarrow> nat \<Rightarrow> string \<Rightarrow> bool" where
  "not_subscribed st et t = (case st et of None \<Rightarrow> True | Some S \<Rightarrow> t \<notin> S)"

text \<open>
  The outer loop over the requested symbols, with what it accumulates: \<open>tokens\<close>,
  \<open>new_token_symbol_map\<close> and the warnings it sends.
\<close>

fun scan_symbols ::
  "instrument list \<Rightarrow> (nat \<rightharpoonup> string set) \<Rightarrow> nat \<Rightarrow> string \<Rightarrow> string list \<Rightarrow>
     string list \<times> (string \<rightharpoonup> string) \<times> event list \<Rightarrow>
     string list \<times> (string \<rightharpoonup> string) \<times> event list" where
  "scan_symbols il st et ex [] acc = acc"
| "scan_symbols il st et ex (ts # rest) (tokens, m, warnings) =
     (case resolve_symbol il ts ex of
        Some t \<Rightarrow>
          scan_symbols il st et ex rest
            (if not_subscribed st et t then tokens @ [t] else tokens, m(t \<mapsto> ts), warnings)
      | None \<Rightarrow>
          scan_symbols il st et ex rest (tokens, m, warnings @ [Symbol_not_found ts]))"

text \<open>The loop that appends to \<open>monitor_symbols\<close> the tokens it does not hold yet.\<close>

fun add_monitor :: "string list \<Rightarrow> string list \<Rightarrow> string list" where
  "add_monitor mon [] = mon"
| "add_monitor mon (t # ts) = add_monitor (if t \<in> set mon then mon else mon @ [t]) ts"

text \<open>
  \<open>handle_subscribe\<close>. \<open>feed_ok\<close> says whether \<open>self.sws.subscribe\<close> returns (it raises
  when the socket is missing or the call fails); \<open>feed\<close> records the call either way.
  Starting the indicator monitor sets \<open>indicator_refresh_task\<close>.
\<close>

definition handle_subscribe :: "bool \<Rightarrow> string list \<Rightarrow> string \<Rightarrow> consumer \<Rightarrow> consumer" where
  "handle_subscribe feed_ok tradingsymbols ex s =
     (case instrument_list s of
        None \<Rightarrow> send (Error_message ''Instrument list not loaded'') s
      | Some il \<Rightarrow>
          if il = [] then send (Error_message ''Instrument list not loaded'') s
          else
            (let exchange_type = exchange_type_of ex;
                 r = scan_symbols il (subscribed_tokens s) exchange_type ex tradingsymbols
                       ([], Map.empty, []);
                 tokens = fst r;
                 new_token_symbol_map = fst (snd r);
                 s1 = s\<lparr>sent := sent s @ snd (snd r)\<rparr>
             in if tokens \<noteq> [] then
                  (let s2 = s1\<lparr>feed := feed s1 @ [(exchange_type, tokens)]\<rparr>
                   in if \<not> feed_ok then send (Error_message ''Subscribe failed'') s2
                      else
                        (let old = (case subscribed_tokens s2 exchange_type of
                                      None \<Rightarrow> {} | Some S \<Rightarrow> S);
                             mon = add_monitor (monitor_symbols s2) tokens;
                             added_count = length mon - length (monitor_symbols s2)
                         in send (Subscribed tradingsymbols tokens ex (length mon))
                              (s2\<lparr>subscribed_tokens :=
                                     (subscribed_tokens s2)(exchange_type \<mapsto> old \<union> set tokens),
                                   token_symbol_map := token_symbol_map s2 ++ new_token_symbol_map,
                                   monitor_symbols := mon,
                                   indicator_refresh_task :=
                                     (indicator_refresh_task s2 \<or> 0 < added_count)\<rparr>)))
                else send No_new_subscriptions s1))"

text \<open>The tokens a reply of \<open>handle_subscribe\<close> names as newly subscribed.\<close>

fun reply_tokens :: "event \<Rightarrow> string list option" where
  "reply_tokens (Subscribed tss tokens ex n) = Some tokens"
| "reply_tokens No_new_subscriptions = Some []"
| "reply_tokens ev = None"

definition subscribed_under :: "consumer \<Rightarrow> nat \<Rightarrow> string set" where
  "subscribed_under s et = (case subscribed_tokens s et of None \<Rightarrow> {} | Some S \<Rightarrow> S)"

text \<open>
  An instrument directory in which the token 3045 names SBIN-EQ on NSE and a futures
  contract on NFO, the consumer that has loaded it, and that consumer after subscribing
  to SBIN-EQ on NSE.
\<close>

definition example_instruments :: "instrument list" where
  "example_instruments =
     [\<lparr>instr_symbol = Some ''SBIN-EQ'', exch_seg = Some ''NSE'', instr_token = Some ''3045''\<rparr>,
      \<lparr>instr_symbol = Some ''SBIN-EQ'', exch_seg = Some ''BSE'', instr_token = Some ''500112''\<rparr>,
      \<lparr>instr_symbol = Some ''SBIN24FUT'', exch_seg = Some ''NFO'', instr_token = Some ''3045''\<rparr>]"

definition example_loaded :: consumer where
  "example_loaded =
     \<lparr>subscribed_tokens = Map.empty, token_symbol_map = Map.empty,
      token_to_symbol = Some [''3045'' \<mapsto> ''SBIN24FUT'', ''500112'' \<mapsto> ''SBIN-EQ''],
      instrument_list = Some example_instruments, smart_api = True,
      monitor_symbols = [], indicator_refresh_task = False, db = [], sent = [], feed = []\<rparr>"

definition example_subscribed :: consumer where
  "example_subscribed = handle_subscribe True [''SBIN-EQ''] ''NSE'' example_loaded"

section \<open>MACD and ADX (market/Strategies/indicators.py)\<close>

text \<open>
  \<open>Series.ewm(span=n, adjust=False).mean()\<close>: the first value is the first sample, and
  each later one is \<open>(1 - a) * y + a * x\<close> with \<open>a = 2 / (n + 1)\<close>.
\<close>

fun ewm_from :: "float \<Rightarrow> float \<Rightarrow> float list \<Rightarrow> float list" where
  "ewm_from a y [] = []"
| "ewm_from a y (x # xs) = (let y' = (1 - a) * y + a * x in y' # ewm_from a y' xs)"

definition ewm_mean :: "nat \<Rightarrow> float list \<Rightarrow> float list" where
  "ewm_mean n xs =
     (case xs of [] \<Rightarrow> [] | x # rest \<Rightarrow> x # ewm_from (2 / (of_nat n + 1)) x rest)"

text \<open>\<open>calculate_macd\<close>, for a slow period of at least 1 (the callers use 12, 26, 9).\<close>

definition calculate_macd ::
  "float list \<Rightarrow> nat \<Rightarrow> nat \<Rightarrow> nat \<Rightarrow> float option \<times> float option \<times> float option" where
  "calculate_macd closes fast slow sig =
     (if length closes < slow then (None, None, None)
      else
        (let ema_fast = ewm_mean fast closes;
             ema_slow = ewm_mean slow closes;
             macd_line = map (\<lambda>(f, s). f - s) (zip ema_fast ema_slow);
             signal_line = ewm_mean sig macd_line;
             histogram = map (\<lambda>(m, s). m - s) (zip macd_line signal_line)
         in (Some (last macd_line), Some (last signal_line), Some (last histogram))))"

text \<open>
  The columns of \<open>calculate_adx\<close>, over the rows \<open>(high, low, close)\<close>. In the first row
  the shifted columns are NaN: the row maximum skips them, and a comparison with NaN is
  false, so both directional movements are 0 there.
\<close>

fun tr_series :: "float option \<Rightarrow> (float \<times> float \<times> float) list \<Rightarrow> float list" where
  "tr_series prev [] = []"
| "tr_series prev ((h, l, c) # rows) =
     (case prev of
        None \<Rightarrow> h - l
      | Some pc \<Rightarrow> max (h - l) (max \<bar>h - pc\<bar> \<bar>l - pc\<bar>))
     # tr_series (Some c) rows"

fun dm_plus_series :: "(float \<times> float) option \<Rightarrow> (float \<times> float \<times> float) list \<Rightarrow> float list" where
  "dm_plus_series prev [] = []"
| "dm_plus_series prev ((h, l, c) # rows) =
     (case prev of
        None \<Rightarrow> 0
      | Some (ph, pl) \<Rightarrow> if pl - l < h - ph then max (h - ph) 0 else 0)
     # dm_plus_series (Some (h, l)) rows"

fun dm_minus_series :: "(float \<times> float) option \<Rightarrow> (float \<times> float \<times> float) list \<Rightarrow> float list" where
  "dm_minus_series prev [] = []"
| "dm_minus_series prev ((h, l, c) # rows) =
     (case prev of
        None \<Rightarrow> 0
      | Some (ph, pl) \<Rightarrow> if h - ph < pl - l then max (pl - l) 0 else 0)
     # dm_minus_series (Some (h, l)) rows"

text \<open>
  \<open>rolling(window=period).mean()\<close>: NaN in the first \<open>period - 1\<close> rows, then the mean of
  the last \<open>period\<close> values. On a column with NaN entries (\<open>dx\<close>) a window that holds
  fewer than \<open>period\<close> numbers gives NaN; an infinite entry, which \<open>dx\<close> never has, is
  given NaN as well.
\<close>

definition rolling_mean :: "nat \<Rightarrow> float list \<Rightarrow> xfloat list" where
  "rolling_mean period xs =
     map (\<lambda>i. if i + 1 < period then NaN
              else Fin (sum_list (take period (drop (i + 1 - period) xs)) / of_nat period))
       [0..<length xs]"

fun fin_values :: "xfloat list \<Rightarrow> float list option" where
  "fin_values [] = Some []"
| "fin_values (Fin a # xs) = map_option ((#) a) (fin_values xs)"
| "fin_values (x # xs) = None"

definition xrolling_mean :: "nat \<Rightarrow> xfloat list \<Rightarrow> xfloat list" where
  "xrolling_mean period xs =
     map (\<lambda>i. if i + 1 < period then NaN
              else (case fin_values (take period (drop (i + 1 - period) xs)) of
                      None \<Rightarrow> NaN
                    | Some w \<Rightarrow> Fin (sum_list w / of_nat period)))
       [0..<length xs]"

datatype py_error = ValueError

text \<open>
  \<open>calculate_adx\<close>, for a period of at least 1 (the callers use 14). The DataFrame
  constructor raises ValueError on columns of different lengths.
\<close>

definition calculate_adx ::
  "float list \<Rightarrow> float list \<Rightarrow> float list \<Rightarrow> nat \<Rightarrow>
     py_error + (xfloat option \<times> xfloat option \<times> xfloat option)" where
  "calculate_adx highs lows closes period =
     (if length closes < period * 2 then Inr (None, None, None)
      else if length highs \<noteq> length closes \<or> length lows \<noteq> length closes then Inl ValueError
      else
        (let rows = zip highs (zip lows closes);
             atr = rolling_mean period (tr_series None rows);
             di_plus = map (\<lambda>(m, a). xhundred (xdiv m a))
                         (zip (rolling_mean period (dm_plus_series None rows)) atr);
             di_minus = map (\<lambda>(m, a). xhundred (xdiv m a))
                          (zip (rolling_mean period (dm_minus_series None rows)) atr);
             dx = map (\<lambda>(p, m). xdiv (xhundred (xabs (xsub p m))) (xadd p m))
                    (zip di_plus di_minus);
             adx = xrolling_mean period dx
         in Inr (Some (last adx), Some (last di_plus), Some (last di_minus))))"

section \<open>The periodic refresh (send_current_indicators, refresh_loop)\<close>

record candle =
  c_timestamp :: string
  c_open :: float
  c_high :: float
  c_low :: float
  c_close :: float
  c_volume :: float

text \<open>
  What \<open>smart_api.getCandleData\<close> does for a token: it raises, or it returns nothing
  (\<open>None\<close> or an empty dictionary), or it returns a dictionary, of which the model keeps
  whether \<open>status\<close> is \<open>True\<close> and the list under \<open>data\<close> (empty when the key is missing).
\<close>

datatype candle_response = Fetch_raises | Fetch_nothing | Fetch_dict bool "candle list"

text \<open>
  The \<open>try\<close> block of \<open>send_current_indicators\<close>: the message it sends, or nothing when
  it returns early or an exception is caught. The timestamp of the payload is left out.
\<close>

definition indicators_payload ::
  "(string \<Rightarrow> candle_response) \<Rightarrow> (string \<rightharpoonup> string) \<Rightarrow> string \<Rightarrow> event option" where
  "indicators_payload getCandleData tsm symbol_token =
     (case getCandleData symbol_token of
        Fetch_raises \<Rightarrow> None
      | Fetch_nothing \<Rightarrow> None
      | Fetch_dict status_true data \<Rightarrow>
          if \<not> status_true \<or> data = [] then None
          else
            (let candles = drop (length data - 100) data
             in if length candles < 50 then None
                else
                  (let closes = map c_close candles;
                       highs = map c_high candles;
                       lows = map c_low candles;
                       rsi = calculate_rsi closes 14;
                       macd = calculate_macd closes 12 26 9;
                       latest_close = last closes
                   in case calculate_adx highs lows closes 14 of
                        Inl err \<Rightarrow> None
                      | Inr (adx, di_plus, di_minus) \<Rightarrow>
                          Some (Live_indicators_update symbol_token
                                  (case tsm symbol_token of None \<Rightarrow> ''UNKNOWN'' | Some n \<Rightarrow> n)
                                  (if latest_close \<noteq> 0 then Some (round2 latest_close) else None)
                                  (map_option round2 rsi)
                                  (map_option round4 (fst macd), map_option round4 (fst (snd macd)),
                                   map_option round4 (snd (snd macd)))
                                  (map_option xround2 adx, map_option xround2 di_plus,
                                   map_option xround2 di_minus)))))"

definition send_current_indicators ::
  "(string \<Rightarrow> candle_response) \<Rightarrow> string \<Rightarrow> consumer \<Rightarrow> consumer" where
  "send_current_indicators getCandleData symbol_token s =
     (if \<not> smart_api s then s
      else (case indicators_payload getCandleData (token_symbol_map s) symbol_token of
              None \<Rightarrow> s
            | Some payload \<Rightarrow> send payload s))"





section \<open>Looking up the open position\<close>

lemma first_open_Some:
  "first_open ps tok = Some i \<Longrightarrow> i < length ps \<and> is_open tok (ps ! i)"
  by (induction ps arbitrary: i) (auto split: if_splits)

lemma first_open_None: "first_open ps tok = None \<longleftrightarrow> filter (is_open tok) ps = []"
  by (induction ps) auto

lemma get_open_Some:
  "get_open_position_for_token ps tok = Some i \<Longrightarrow> i < length ps \<and> is_open tok (ps ! i)"
  by (induction ps arbitrary: i) (auto split: if_splits option.splits)

lemma get_open_None:
  "get_open_position_for_token ps tok = None \<longleftrightarrow> filter (is_open tok) ps = []"
  by (induction ps) (auto split: option.splits)

lemma filter_open_update:
  "i < length ps \<Longrightarrow> is_open tok (ps ! i) \<Longrightarrow> \<not> is_open tok q \<Longrightarrow>
     length (filter (is_open tok) (ps[i := q])) = length (filter (is_open tok) ps) - 1"
proof (induction ps arbitrary: i)
  case Nil
  then show ?case by simp
next
  case (Cons p ps)
  show ?case
  proof (cases i)
    case 0
    with Cons.prems show ?thesis by simp
  next
    case (Suc j)
    with Cons.prems have j: "j < length ps" "is_open tok (ps ! j)"
      by simp_all
    then have "filter (is_open tok) ps \<noteq> []"
      by (metis filter_empty_conv nth_mem)
    then have "0 < length (filter (is_open tok) ps)"
      by simp
    with Cons.IH [OF j Cons.prems(3)] Suc show ?thesis
      by simp
  qed
qed

lemma unique_open_same:
  "length (filter (is_open tok) ps) \<le> 1 \<Longrightarrow> first_open ps tok = get_open_position_for_token ps tok"
proof (induction ps)
  case Nil
  then show ?case by simp
next
  case (Cons p ps)
  show ?case
  proof (cases "is_open tok p")
    case True
    with Cons.prems have "filter (is_open tok) ps = []" by simp
    then have "get_open_position_for_token ps tok = None" by (simp add: get_open_None)
    with True show ?thesis by simp
  next
    case False
    with Cons show ?thesis by (simp split: option.splits)
  qed
qed

section \<open>Opening a position\<close>

lemma round2_100_long_target: "round2 (target_for ''LONG'' 100) = 203 / 2"
  by (simp add: round2_def py_round_def target_for_def reward_percent_def risk_percent_def
      risk_reward_def)

lemma round2_100_long_stoploss: "round2 (stoploss_for ''LONG'' 100) = 99"
  by (simp add: round2_def py_round_def stoploss_for_def risk_percent_def)




section \<open>Closing a position\<close>

lemma close_position_db_None:
  "get_open_position_for_token (db s) tok = None \<Longrightarrow> close_position_db now tok x r s = (s, None)"
  by (simp add: close_position_db_def)

lemma close_position_db_db:
  "get_open_position_for_token (db s) tok = Some i \<Longrightarrow>
     db (fst (close_position_db now tok x r s)) =
       (db s)[i := (db s ! i)\<lparr>exit_price := Some x, exit_datetime := Some now,
                     mtm := round2 (realized_pnl (db s ! i) x), status := ''CLOSED''\<rparr>]"
  by (simp add: close_position_db_def Let_def send_def)

lemma close_position_db_other_rows:
  assumes "\<not> is_open tok (db s ! k)"
  shows "db (fst (close_position_db now tok x r s)) ! k = db s ! k"
proof (cases "get_open_position_for_token (db s) tok")
  case None
  then show ?thesis by (simp add: close_position_db_None)
next
  case (Some j)
  with assms have "j \<noteq> k" using get_open_Some by blast
  with Some show ?thesis by (simp add: close_position_db_db)
qed

text \<open>
  C5. Closing is idempotent. When \<open>close_position_db\<close> closes the open row of a token,
  that row gets the exit price, the exit time, the realized PNL as MTM and the status
  CLOSED, and a second call with any exit price, time and reason leaves the row as the
  first call wrote it. When the token has at most one open row, the second call returns
  nothing and changes nothing at all: no row, no message.
\<close>

theorem close_position_db_idempotent:
  "(get_open_position_for_token (db s) tok = Some i \<longrightarrow>
      (let s1 = fst (close_position_db t1 tok x1 r1 s);
           s2 = fst (close_position_db t2 tok x2 r2 s1)
       in exit_price (db s1 ! i) = Some x1 \<and> exit_datetime (db s1 ! i) = Some t1
          \<and> mtm (db s1 ! i) = round2 (realized_pnl (db s ! i) x1)
          \<and> status (db s1 ! i) = ''CLOSED'' \<and> db s2 ! i = db s1 ! i))
   \<and> (length (filter (is_open tok) (db s)) \<le> 1 \<longrightarrow>
        close_position_db t2 tok x2 r2 (fst (close_position_db t1 tok x1 r1 s))
          = (fst (close_position_db t1 tok x1 r1 s), None))"
proof (intro conjI impI)
  assume g: "get_open_position_for_token (db s) tok = Some i"
  let ?s1 = "fst (close_position_db t1 tok x1 r1 s)"
  from g have i: "i < length (db s)" using get_open_Some by blast
  have row: "db ?s1 ! i = (db s ! i)\<lparr>exit_price := Some x1, exit_datetime := Some t1,
                     mtm := round2 (realized_pnl (db s ! i) x1), status := ''CLOSED''\<rparr>"
    using i by (simp add: close_position_db_db [OF g])
  then have "\<not> is_open tok (db ?s1 ! i)"
    by (simp add: is_open_def)
  then have "db (fst (close_position_db t2 tok x2 r2 ?s1)) ! i = db ?s1 ! i"
    by (rule close_position_db_other_rows)
  with row show "let s1 = fst (close_position_db t1 tok x1 r1 s);
           s2 = fst (close_position_db t2 tok x2 r2 s1)
       in exit_price (db s1 ! i) = Some x1 \<and> exit_datetime (db s1 ! i) = Some t1
          \<and> mtm (db s1 ! i) = round2 (realized_pnl (db s ! i) x1)
          \<and> status (db s1 ! i) = ''CLOSED'' \<and> db s2 ! i = db s1 ! i"
    by (simp add: Let_def)
next
  assume u: "length (filter (is_open tok) (db s)) \<le> 1"
  let ?s1 = "fst (close_position_db t1 tok x1 r1 s)"
  have "filter (is_open tok) (db ?s1) = []"
  proof (cases "get_open_position_for_token (db s) tok")
    case None
    then show ?thesis by (simp add: close_position_db_None get_open_None)
  next
    case (Some j)
    then have j: "j < length (db s)" "is_open tok (db s ! j)"
      using get_open_Some by blast+
    have "length (filter (is_open tok) (db ?s1)) = length (filter (is_open tok) (db s)) - 1"
      unfolding close_position_db_db [OF Some]
      by (rule filter_open_update [OF j]) (simp add: is_open_def)
    with u show ?thesis by simp
  qed
  then have "get_open_position_for_token (db ?s1) tok = None"
    by (simp add: get_open_None)
  then show "close_position_db t2 tok x2 r2 ?s1 = (?s1, None)"
    by (rule close_position_db_None)
qed

lemma example_opened_db:
  "db example_opened = [\<lparr>symbol = ''SBIN-EQ'', exchange = ''NSE'', token = ''3045'',
      entry_price = Some 100, entry_datetime = 7, exit_price = None, exit_datetime = None,
      target = Some (203 / 2), stoploss = Some 99, mtm = 0, status = ''OPEN'', lots = 1,
      quantity = 50\<rparr>]"
  by (simp add: example_opened_def open_position_db_def symbol_name_of_def example_consumer_def
      send_def Let_def round2_100_long_target round2_100_long_stoploss)

theorem close_position_db_idempotent_witness:
  "get_open_position_for_token (db example_opened) ''3045'' = Some 0
   \<and> length (filter (is_open ''3045'') (db example_opened)) \<le> 1
   \<and> db (fst (close_position_db 8 ''3045'' 99 (Text ''Stoploss hit'') example_opened)) =
       [\<lparr>symbol = ''SBIN-EQ'', exchange = ''NSE'', token = ''3045'',
         entry_price = Some 100, entry_datetime = 7, exit_price = Some 99,
         exit_datetime = Some 8, target = Some (203 / 2), stoploss = Some 99, mtm = 50,
         status = ''CLOSED'', lots = 1, quantity = 50\<rparr>]
   \<and> close_position_db 9 ''3045'' 105 (Text ''again'')
         (fst (close_position_db 8 ''3045'' 99 (Text ''Stoploss hit'') example_opened))
       = (fst (close_position_db 8 ''3045'' 99 (Text ''Stoploss hit'') example_opened), None)"
proof -
  have g: "get_open_position_for_token (db example_opened) ''3045'' = Some 0"
    by (simp add: example_opened_db is_open_def)
  have u: "length (filter (is_open ''3045'') (db example_opened)) \<le> 1"
    by (simp add: example_opened_db)
  have d: "db (fst (close_position_db 8 ''3045'' 99 (Text ''Stoploss hit'') example_opened)) =
       [\<lparr>symbol = ''SBIN-EQ'', exchange = ''NSE'', token = ''3045'',
         entry_price = Some 100, entry_datetime = 7, exit_price = Some 99,
         exit_datetime = Some 8, target = Some (203 / 2), stoploss = Some 99, mtm = 50,
         status = ''CLOSED'', lots = 1, quantity = 50\<rparr>]"
    by (simp add: close_position_db_db [OF g] example_opened_db realized_pnl_def round2_def
        py_round_def)
  from close_position_db_idempotent [of example_opened "''3045''" 0 8 99 "Text ''Stoploss hit''"
      9 105 "Text ''again''"] g u d
  show ?thesis by simp
qed

section \<open>Ticks\<close>

lemma update_mtm_db:
  "i < length (db s) \<Longrightarrow>
     db (update_mtm tok sn ltp e i s) =
       (db s)[i := (db s ! i)\<lparr>mtm :=
          (if 5 / 100 < \<bar>\<bar>ltp - e\<bar> * of_nat (quantity (db s ! i)) - mtm (db s ! i)\<bar>
           then round2 (\<bar>ltp - e\<bar> * of_nat (quantity (db s ! i))) else mtm (db s ! i))\<rparr>]"
  by (simp add: update_mtm_def mtm_value_def Let_def send_def abs_if)


lemma exit_decision_mtm [simp]: "exit_decision (p\<lparr>mtm := m\<rparr>) ltp e = exit_decision p ltp e"
  by (simp add: exit_decision_def)


lemma send_simps [simp]:
  "db (send ev s) = db s" "sent (send ev s) = sent s @ [ev]"
  "token_symbol_map (send ev s) = token_symbol_map s"
  by (simp_all add: send_def)

lemma update_mtm_row:
  "i < length (db s) \<Longrightarrow>
     db (update_mtm tok sn ltp e i s) ! i = (db s ! i)\<lparr>mtm :=
          (if 5 / 100 < \<bar>\<bar>ltp - e\<bar> * of_nat (quantity (db s ! i)) - mtm (db s ! i)\<bar>
           then round2 (\<bar>ltp - e\<bar> * of_nat (quantity (db s ! i))) else mtm (db s ! i))\<rparr>"
  by (simp add: update_mtm_db)

text \<open>What \<open>on_data\<close> does with a priced tick for a token whose open row has an entry price.\<close>

lemma on_data_open:
  assumes "last_traded_price msg = Some raw" "raw \<noteq> 0"
    and "first_open (db s) (tick_token msg) = Some i"
    and "entry_price (db s ! i) = Some e"
    and "sn = (case token_symbol_map s (tick_token msg) of None \<Rightarrow> ''UNKNOWN'' | Some n \<Rightarrow> n)"
    and "s2 = update_mtm (tick_token msg) sn (of_int raw / 100) e i
                (send (Ltp sn (tick_token msg) (round2 (of_int raw / 100))) s)"
  shows "on_data now msg s =
    (case exit_decision (db s ! i) (of_int raw / 100) e of
       None \<Rightarrow> s2
     | Some r \<Rightarrow> send (Auto_exit (tick_token msg) sn (round2 (of_int raw / 100)) r (mtm (db s2 ! i)))
                  (fst (close_position_db now (tick_token msg) (of_int raw / 100) r s2)))"
proof -
  from assms(3) have i: "i < length (db s)" using first_open_Some by blast
  have a: "exit_decision (db s2 ! i) (of_int raw / 100) e = exit_decision (db s ! i) (of_int raw / 100) e"
    unfolding assms(6) using i by (simp add: update_mtm_row)
  have f: "first_open (db (send (Ltp sn (tick_token msg) (round2 (of_int raw / 100))) s))
             (tick_token msg) = Some i"
    and g: "entry_price (db (send (Ltp sn (tick_token msg) (round2 (of_int raw / 100))) s) ! i) = Some e"
    using assms(3,4) by simp_all
  have "on_data now msg s =
    (case exit_decision (db s2 ! i) (of_int raw / 100) e of
       None \<Rightarrow> s2
     | Some r \<Rightarrow> send (Auto_exit (tick_token msg) sn (round2 (of_int raw / 100)) r (mtm (db s2 ! i)))
                  (fst (close_position_db now (tick_token msg) (of_int raw / 100) r s2)))"
    unfolding on_data_def Let_def assms(1) option.case
    unfolding assms(5) [symmetric] f g option.case assms(6) [symmetric]
    using assms(2) by (simp only: if_False)
  then show ?thesis
    by (simp only: a)
qed



lemma on_data_not_open:
  assumes "last_traded_price msg = Some raw" "raw \<noteq> 0"
    and "first_open (db s) (tick_token msg) = None
         \<or> (\<exists>i. first_open (db s) (tick_token msg) = Some i \<and> entry_price (db s ! i) = None)"
  shows "\<exists>ev. \<not> is_close_event ev \<and> on_data now msg s = send ev s"
  using assms by (auto simp: on_data_def Let_def intro!: exI [of _ "Ltp sn tok x" for sn tok x])

lemma key_update_mtm:
  "i < length ps \<Longrightarrow>
     map (\<lambda>p. (token p, status p, entry_datetime p)) (ps[i := (ps ! i)\<lparr>mtm := m\<rparr>]) =
     map (\<lambda>p. (token p, status p, entry_datetime p)) ps"
  by (simp add: map_update list_update_same_conv)

lemma get_open_key:
  "map (\<lambda>p. (token p, status p, entry_datetime p)) ps =
   map (\<lambda>p. (token p, status p, entry_datetime p)) qs \<Longrightarrow>
     get_open_position_for_token ps tok = get_open_position_for_token qs tok"
proof (induction ps arbitrary: qs)
  case Nil
  then show ?case by simp
next
  case (Cons p ps)
  then obtain q qs' where qs: "qs = q # qs'"
    by (cases qs) auto
  with Cons.prems have k: "token p = token q" "status p = status q"
      "entry_datetime p = entry_datetime q"
    and m: "map (\<lambda>p. (token p, status p, entry_datetime p)) ps =
            map (\<lambda>p. (token p, status p, entry_datetime p)) qs'"
    by simp_all
  from Cons.IH [OF m] have ih: "get_open_position_for_token ps tok = get_open_position_for_token qs' tok" .
  have o: "is_open tok p = is_open tok q"
    using k by (simp add: is_open_def)
  show ?case
  proof (cases "get_open_position_for_token ps tok")
    case None
    with ih o show ?thesis by (simp add: qs)
  next
    case (Some j)
    then have "j < length ps" using get_open_Some by blast
    with m have "entry_datetime (ps ! j) = entry_datetime (qs' ! j)"
      by (metis (mono_tags, lifting) length_map nth_map prod.inject)
    with Some ih o k show ?thesis by (simp add: qs)
  qed
qed

lemma update_mtm_get_open:
  "i < length (db s) \<Longrightarrow>
     get_open_position_for_token (db (update_mtm tok sn ltp e i s)) tok' =
     get_open_position_for_token (db s) tok'"
  by (rule get_open_key) (simp add: update_mtm_db key_update_mtm)

lemma update_mtm_status:
  "i < length (db s) \<Longrightarrow> map status (db (update_mtm tok sn ltp e i s)) = map status (db s)"
  by (simp add: update_mtm_db map_update list_update_same_conv)

lemma update_mtm_positions_closed:
  "positions_closed (update_mtm tok sn ltp e i s) = positions_closed s"
  by (simp add: update_mtm_def positions_closed_def Let_def)

lemma send_positions_closed:
  "positions_closed (send ev s) = positions_closed s + (if is_close_event ev then 1 else 0)"
  by (simp add: positions_closed_def)

lemma close_position_db_closes:
  "get_open_position_for_token (db s) tok = Some k \<Longrightarrow>
     positions_closed (fst (close_position_db now tok x r s)) = positions_closed s + 1
     \<and> map status (db (fst (close_position_db now tok x r s))) = (map status (db s))[k := ''CLOSED'']
     \<and> exit_price (db (fst (close_position_db now tok x r s)) ! k) = Some x
     \<and> exit_datetime (db (fst (close_position_db now tok x r s)) ! k) = Some now"
  using get_open_Some [of "db s" tok k]
  by (simp add: close_position_db_db map_update)
     (simp add: close_position_db_def Let_def positions_closed_def)


text \<open>
  C9. A tick whose last traded price is absent or zero is dropped: \<open>on_data\<close> returns
  the consumer as it was, so no message is sent and no row of the Position table changes.
\<close>

theorem on_data_drops_unpriced_tick:
  "last_traded_price msg = None \<or> last_traded_price msg = Some 0 \<Longrightarrow> on_data now msg s = s"
  by (auto simp: on_data_def)

theorem on_data_drops_unpriced_tick_witness:
  "on_data 8 \<lparr>tick_token = ''3045'', last_traded_price = Some 0\<rparr> example_opened = example_opened
   \<and> on_data 8 \<lparr>tick_token = ''3045'', last_traded_price = None\<rparr> example_opened = example_opened"
  using on_data_drops_unpriced_tick [of "\<lparr>tick_token = ''3045'', last_traded_price = Some 0\<rparr>" 8 example_opened]
    on_data_drops_unpriced_tick [of "\<lparr>tick_token = ''3045'', last_traded_price = None\<rparr>" 8 example_opened]
  by simp





lemma on_data_positions_closed:
  "positions_closed (on_data now msg s) \<le> positions_closed s + 1"
proof (cases "last_traded_price msg")
  case None
  then show ?thesis by (simp add: on_data_def)
next
  case (Some raw)
  show ?thesis
  proof (cases "raw = 0")
    case True
    with Some show ?thesis by (simp add: on_data_def)
  next
    case nz: False
    show ?thesis
    proof (cases "\<exists>i e. first_open (db s) (tick_token msg) = Some i \<and> entry_price (db s ! i) = Some e")
      case False
      then have "first_open (db s) (tick_token msg) = None
         \<or> (\<exists>i. first_open (db s) (tick_token msg) = Some i \<and> entry_price (db s ! i) = None)"
        by (cases "first_open (db s) (tick_token msg)") auto
      from on_data_not_open [OF Some nz this, where now = now] show ?thesis
        by (auto simp: send_positions_closed)
    next
      case True
      then obtain i e where f: "first_open (db s) (tick_token msg) = Some i"
        and e: "entry_price (db s ! i) = Some e"
        by blast
      define sn where "sn = (case token_symbol_map s (tick_token msg) of None \<Rightarrow> ''UNKNOWN'' | Some n \<Rightarrow> n)"
      define s2 where "s2 = update_mtm (tick_token msg) sn (of_int raw / 100) e i
                (send (Ltp sn (tick_token msg) (round2 (of_int raw / 100))) s)"
      have c2: "positions_closed s2 = positions_closed s"
        by (simp add: s2_def update_mtm_positions_closed send_positions_closed)
      have cl: "positions_closed (fst (close_position_db now tok x r s2)) \<le> positions_closed s2 + 1"
        for tok x r
        by (cases "get_open_position_for_token (db s2) tok")
          (simp_all add: close_position_db_None close_position_db_closes)
      show ?thesis
        unfolding on_data_open [OF Some nz f e sn_def s2_def]
        using c2 cl by (simp add: send_positions_closed split: option.split)
    qed
  qed
qed

lemma on_data_exit:
  assumes "last_traded_price msg = Some raw" "raw \<noteq> 0"
    and "first_open (db s) (tick_token msg) = Some i"
    and "entry_price (db s ! i) = Some e"
    and "exit_decision (db s ! i) (of_int raw / 100) e \<noteq> None"
    and "get_open_position_for_token (db s) (tick_token msg) = Some k"
  shows "positions_closed (on_data now msg s) = positions_closed s + 1
    \<and> map status (db (on_data now msg s)) = (map status (db s))[k := ''CLOSED'']
    \<and> exit_price (db (on_data now msg s) ! k) = Some (of_int raw / 100)
    \<and> exit_datetime (db (on_data now msg s) ! k) = Some now"
proof -
  from assms(3) have i: "i < length (db s)" using first_open_Some by blast
  define sn where "sn = (case token_symbol_map s (tick_token msg) of None \<Rightarrow> ''UNKNOWN'' | Some n \<Rightarrow> n)"
  define s2 where "s2 = update_mtm (tick_token msg) sn (of_int raw / 100) e i
                (send (Ltp sn (tick_token msg) (round2 (of_int raw / 100))) s)"
  have c2: "positions_closed s2 = positions_closed s"
    by (simp add: s2_def update_mtm_positions_closed send_positions_closed)
  have g2: "get_open_position_for_token (db s2) (tick_token msg) = Some k"
    using i assms(6) by (simp add: s2_def update_mtm_get_open)
  have st: "map status (db s2) = map status (db s)"
    using i by (simp add: s2_def update_mtm_status)
  from assms(5) obtain r where r: "exit_decision (db s ! i) (of_int raw / 100) e = Some r"
    by blast
  show ?thesis
    unfolding on_data_open [OF assms(1-4) sn_def s2_def] r
    using close_position_db_closes [OF g2, of now "of_int raw / 100" r] c2 st
    by (simp add: send_positions_closed)
qed

lemma both_hit_exit:
  "target p = Some tg \<Longrightarrow> stoploss p = Some sl \<Longrightarrow> target_hit ltp tg e \<Longrightarrow>
     stoploss_hit ltp sl e \<Longrightarrow> exit_decision p ltp e = Some (Text ''Stoploss hit'')"
  by (simp add: exit_decision_def)

text \<open>
  C4. A position with entry price 100 and stoploss 99 that is the token's only open row is
  closed by the tick at 99.00: its exit price is 99, its exit time the time of the tick, and
  its status is the only one in the table to change, from OPEN to CLOSED, with one
  position reported closed. No tick ever closes more than one position; a tick on which
  the target test and the stoploss test both hold closes exactly one.
\<close>

theorem on_data_closes_once:
  "(length (filter (is_open tok) (db s)) \<le> 1 \<and> first_open (db s) tok = Some i
      \<and> entry_price (db s ! i) = Some 100 \<and> stoploss (db s ! i) = Some 99 \<longrightarrow>
      (let s' = on_data now \<lparr>tick_token = tok, last_traded_price = Some 9900\<rparr> s
       in status (db s ! i) = ''OPEN'' \<and> map status (db s') = (map status (db s))[i := ''CLOSED'']
          \<and> exit_price (db s' ! i) = Some 99 \<and> exit_datetime (db s' ! i) = Some now
          \<and> positions_closed s' = positions_closed s + 1))
   \<and> positions_closed (on_data now msg s) \<le> positions_closed s + 1
   \<and> (last_traded_price msg = Some raw \<and> raw \<noteq> 0
        \<and> first_open (db s) (tick_token msg) = Some j \<and> entry_price (db s ! j) = Some e
        \<and> target (db s ! j) = Some tg \<and> stoploss (db s ! j) = Some sl
        \<and> target_hit (of_int raw / 100) tg e \<and> stoploss_hit (of_int raw / 100) sl e \<longrightarrow>
        positions_closed (on_data now msg s) = positions_closed s + 1
        \<and> (\<exists>k. status (db s ! k) = ''OPEN''
              \<and> map status (db (on_data now msg s)) = (map status (db s))[k := ''CLOSED'']))"
proof (intro conjI impI)
  assume a: "length (filter (is_open tok) (db s)) \<le> 1 \<and> first_open (db s) tok = Some i
      \<and> entry_price (db s ! i) = Some 100 \<and> stoploss (db s ! i) = Some 99"
  let ?msg = "\<lparr>tick_token = tok, last_traded_price = Some 9900\<rparr>"
  from a have f: "first_open (db s) (tick_token ?msg) = Some i"
    and g: "get_open_position_for_token (db s) (tick_token ?msg) = Some i"
    using unique_open_same [of tok "db s"] by simp_all
  have x: "exit_decision (db s ! i) (of_int 9900 / 100) 100 \<noteq> None"
    using a by (simp add: exit_decision_def stoploss_hit_def split: option.split)
  have o: "status (db s ! i) = ''OPEN''"
    using first_open_Some [of "db s" tok i] a by (simp add: is_open_def)
  from on_data_exit [OF _ _ f _ x g, where now = now] a o
  show "let s' = on_data now ?msg s
       in status (db s ! i) = ''OPEN'' \<and> map status (db s') = (map status (db s))[i := ''CLOSED'']
          \<and> exit_price (db s' ! i) = Some 99 \<and> exit_datetime (db s' ! i) = Some now
          \<and> positions_closed s' = positions_closed s + 1"
    by (simp add: Let_def)
next
  show "positions_closed (on_data now msg s) \<le> positions_closed s + 1"
    by (rule on_data_positions_closed)
next
  assume b: "last_traded_price msg = Some raw \<and> raw \<noteq> 0
        \<and> first_open (db s) (tick_token msg) = Some j \<and> entry_price (db s ! j) = Some e
        \<and> target (db s ! j) = Some tg \<and> stoploss (db s ! j) = Some sl
        \<and> target_hit (of_int raw / 100) tg e \<and> stoploss_hit (of_int raw / 100) sl e"
  then have "filter (is_open (tick_token msg)) (db s) \<noteq> []"
    using first_open_None [of "db s" "tick_token msg"] by simp
  then obtain k where k: "get_open_position_for_token (db s) (tick_token msg) = Some k"
    using get_open_None [of "db s" "tick_token msg"] by (cases "get_open_position_for_token (db s) (tick_token msg)") auto
  then have o: "status (db s ! k) = ''OPEN''"
    using get_open_Some [of "db s" "tick_token msg" k] by (simp add: is_open_def)
  from b have x: "exit_decision (db s ! j) (of_int raw / 100) e \<noteq> None"
    by (simp add: both_hit_exit)
  from b on_data_exit [OF _ _ _ _ x k, where now = now] o
  show "positions_closed (on_data now msg s) = positions_closed s + 1"
    and "\<exists>k. status (db s ! k) = ''OPEN''
              \<and> map status (db (on_data now msg s)) = (map status (db s))[k := ''CLOSED'']"
    by auto
qed

theorem on_data_closes_once_witness:
  "db (on_data 8 \<lparr>tick_token = ''3045'', last_traded_price = Some 9900\<rparr> example_opened)
     = [\<lparr>symbol = ''SBIN-EQ'', exchange = ''NSE'', token = ''3045'',
         entry_price = Some 100, entry_datetime = 7, exit_price = Some 99,
         exit_datetime = Some 8, target = Some (203 / 2), stoploss = Some 99, mtm = 50,
         status = ''CLOSED'', lots = 1, quantity = 50\<rparr>]
   \<and> target_hit 99 (203 / 2) 100 \<and> stoploss_hit 99 99 100
   \<and> positions_closed example_opened = 0
   \<and> positions_closed
        (on_data 8 \<lparr>tick_token = ''3045'', last_traded_price = Some 9900\<rparr> example_opened) = 1"
proof -
  let ?msg = "\<lparr>tick_token = ''3045'', last_traded_price = Some 9900\<rparr>"
  have r: "round2 50 = 50" "round2 99 = 99"
    by (simp_all add: round2_def py_round_def)
  have f: "first_open (db example_opened) ''3045'' = Some 0"
    by (simp add: example_opened_db is_open_def)
  have d: "db (on_data 8 ?msg example_opened)
     = [\<lparr>symbol = ''SBIN-EQ'', exchange = ''NSE'', token = ''3045'',
         entry_price = Some 100, entry_datetime = 7, exit_price = Some 99,
         exit_datetime = Some 8, target = Some (203 / 2), stoploss = Some 99, mtm = 50,
         status = ''CLOSED'', lots = 1, quantity = 50\<rparr>]"
    by (simp add: on_data_def Let_def f update_mtm_def mtm_value_def example_opened_db r
        exit_decision_def target_hit_def stoploss_hit_def close_position_db_def is_open_def
        realized_pnl_def)
  have h: "target_hit 99 (203 / 2) 100 \<and> stoploss_hit 99 99 100"
    by (simp add: target_hit_def stoploss_hit_def)
  have z: "positions_closed example_opened = 0"
    by (simp add: positions_closed_def example_opened_def open_position_db_def
        symbol_name_of_def example_consumer_def Let_def send_def)
  from on_data_closes_once [where s = example_opened and tok = "''3045''" and i = 0 and now = 8
      and msg = ?msg and raw = 9900 and j = 0 and e = 100 and tg = "203 / 2" and sl = 99]
    f h z
  have "positions_closed (on_data 8 ?msg example_opened) = 1"
    by (simp add: example_opened_db)
  with d h z show ?thesis
    by blast
qed

section \<open>The sign of the MTM\<close>

lemma round2_nonneg: "0 \<le> x \<Longrightarrow> 0 \<le> round2 x"
  unfolding round2_def py_round_def Let_def
  by (auto simp: zero_le_divide_iff)

lemma mtm_value_nonneg: "0 \<le> mtm_value ltp e q"
  by (simp add: mtm_value_def)

lemma realized_pnl_nonneg: "0 \<le> realized_pnl p x"
  by (simp add: realized_pnl_def split: option.split)

lemma mtm_nonneg_update:
  "mtm_nonneg ps \<Longrightarrow> 0 \<le> mtm q \<Longrightarrow> mtm_nonneg (ps[i := q])"
  unfolding mtm_nonneg_def list_all_iff
  by (metis insert_iff set_update_subset_insert subsetD)

lemma open_position_db_nonneg:
  "mtm_nonneg (db s) \<Longrightarrow> mtm_nonneg (db (fst (open_position_db now tok side e q l s)))"
  by (simp add: open_position_db_def Let_def mtm_nonneg_def split: option.split)

lemma close_position_db_nonneg:
  "mtm_nonneg (db s) \<Longrightarrow> mtm_nonneg (db (fst (close_position_db now tok x r s)))"
  by (cases "get_open_position_for_token (db s) tok")
    (simp_all add: close_position_db_None close_position_db_db mtm_nonneg_update round2_nonneg
      realized_pnl_nonneg)

lemma update_mtm_nonneg:
  "mtm_nonneg (db s) \<Longrightarrow> mtm_nonneg (db (update_mtm tok sn ltp e i s))"
  by (simp add: update_mtm_def Let_def mtm_nonneg_update round2_nonneg mtm_value_nonneg)

lemma on_data_nonneg:
  assumes "mtm_nonneg (db s)"
  shows "mtm_nonneg (db (on_data now msg s))"
proof (cases "last_traded_price msg")
  case None
  with assms show ?thesis by (simp add: on_data_def)
next
  case (Some raw)
  show ?thesis
  proof (cases "raw = 0")
    case True
    with Some assms show ?thesis by (simp add: on_data_def)
  next
    case nz: False
    show ?thesis
    proof (cases "\<exists>i e. first_open (db s) (tick_token msg) = Some i \<and> entry_price (db s ! i) = Some e")
      case False
      then have "first_open (db s) (tick_token msg) = None
         \<or> (\<exists>i. first_open (db s) (tick_token msg) = Some i \<and> entry_price (db s ! i) = None)"
        by (cases "first_open (db s) (tick_token msg)") auto
      from on_data_not_open [OF Some nz this, where now = now] assms show ?thesis
        by auto
    next
      case True
      then obtain i e where f: "first_open (db s) (tick_token msg) = Some i"
        and e: "entry_price (db s ! i) = Some e"
        by blast
      define sn where "sn = (case token_symbol_map s (tick_token msg) of None \<Rightarrow> ''UNKNOWN'' | Some n \<Rightarrow> n)"
      define s2 where "s2 = update_mtm (tick_token msg) sn (of_int raw / 100) e i
                (send (Ltp sn (tick_token msg) (round2 (of_int raw / 100))) s)"
      have "mtm_nonneg (db s2)"
        unfolding s2_def using assms by (intro update_mtm_nonneg) simp
      then show ?thesis
        unfolding on_data_open [OF Some nz f e sn_def s2_def]
        by (simp add: close_position_db_nonneg split: option.split)
    qed
  qed
qed

lemma handle_strategy_signal_nonneg:
  "mtm_nonneg (db s) \<Longrightarrow> mtm_nonneg (db (handle_strategy_signal now tok sg lc s))"
  by (simp add: handle_strategy_signal_def Let_def open_position_db_nonneg
      close_position_db_nonneg split: option.split)

lemma apply_op_nonneg: "mtm_nonneg (db s) \<Longrightarrow> mtm_nonneg (db (apply_op x s))"
  by (cases x)
    (simp_all add: on_data_nonneg handle_strategy_signal_nonneg open_position_db_nonneg
      close_position_db_nonneg)

lemma run_nonneg: "mtm_nonneg (db s) \<Longrightarrow> mtm_nonneg (db (run xs s))"
  by (induction xs arbitrary: s) (simp_all add: apply_op_nonneg)

text \<open>
  C10. Every MTM the system writes is non-negative. A new position has MTM 0; the value
  of the tick step and the realized PNL of a close are each the larger price minus the
  smaller one times the quantity, so neither is negative, and rounding keeps that. Hence
  after any history of ticks, strategy signals, opens and closes that starts from an empty
  Position table, every row has MTM at least 0.
\<close>

theorem mtm_never_negative:
  "0 \<le> mtm_value ltp e q \<and> mtm_value ltp e q = max ltp e * of_nat q - min ltp e * of_nat q
   \<and> 0 \<le> realized_pnl p x
   \<and> (entry_price p = Some e \<longrightarrow>
        realized_pnl p x = max x e * of_nat (quantity p) - min x e * of_nat (quantity p))
   \<and> (snd (open_position_db now tok side e q l s) = Some p' \<longrightarrow> mtm p' = 0)
   \<and> (db s = [] \<longrightarrow> list_all (\<lambda>r. 0 \<le> mtm r) (db (run xs s)))"
proof (intro conjI impI)
  show "0 \<le> mtm_value ltp e q"
    by (rule mtm_value_nonneg)
  show "mtm_value ltp e q = max ltp e * of_nat q - min ltp e * of_nat q"
    by (simp add: mtm_value_def max_def min_def algebra_simps)
  show "0 \<le> realized_pnl p x"
    by (rule realized_pnl_nonneg)
  show "realized_pnl p x = max x e * of_nat (quantity p) - min x e * of_nat (quantity p)"
    if "entry_price p = Some e"
    using that by (simp add: realized_pnl_def max_def min_def algebra_simps)
  show "mtm p' = 0" if "snd (open_position_db now tok side e q l s) = Some p'"
    using that by (auto simp: open_position_db_def Let_def split: option.splits)
  show "list_all (\<lambda>r. 0 \<le> mtm r) (db (run xs s))" if "db s = []"
    using run_nonneg [of s xs] that by (simp add: mtm_nonneg_def)
qed


theorem mtm_never_negative_witness:
  "db example_consumer = []
   \<and> db (run example_history example_consumer)
     = [\<lparr>symbol = ''SBIN-EQ'', exchange = ''NSE'', token = ''3045'',
         entry_price = Some 100, entry_datetime = 7, exit_price = Some 99,
         exit_datetime = Some 8, target = Some (203 / 2), stoploss = Some 99, mtm = 50,
         status = ''CLOSED'', lots = 1, quantity = 50\<rparr>]
   \<and> list_all (\<lambda>r. 0 \<le> mtm r) (db (run example_history example_consumer))
   \<and> mtm_value 99 100 50 = 50"
proof -
  have e: "db example_consumer = []"
    by (simp add: example_consumer_def)
  have r: "round2 50 = 50" "round2 99 = 99"
    by (simp_all add: round2_def py_round_def)
  have o: "db (handle_strategy_signal 7 ''3045''
        (Some \<lparr>action = ''BUY'', reason = DI_plus_above 25, confidence = Some ''high''\<rparr>)
        (Some 100) example_consumer) = db example_opened"
    by (simp add: handle_strategy_signal_def e example_opened_def open_position_db_def
        symbol_name_of_def example_consumer_def Let_def send_def)
  have d: "db (run example_history example_consumer)
     = [\<lparr>symbol = ''SBIN-EQ'', exchange = ''NSE'', token = ''3045'',
         entry_price = Some 100, entry_datetime = 7, exit_price = Some 99,
         exit_datetime = Some 8, target = Some (203 / 2), stoploss = Some 99, mtm = 50,
         status = ''CLOSED'', lots = 1, quantity = 50\<rparr>]"
    using o
    by (simp add: example_history_def on_data_def Let_def update_mtm_def mtm_value_def
        example_opened_db r exit_decision_def target_hit_def stoploss_hit_def
        close_position_db_def is_open_def realized_pnl_def)
  from mtm_never_negative [where s = example_consumer and xs = example_history and ltp = 99
      and e = 100 and q = 50] e
  have "list_all (\<lambda>r. 0 \<le> mtm r) (db (run example_history example_consumer))"
    by simp
  moreover have "mtm_value 99 100 50 = 50"
    by (simp add: mtm_value_def)
  ultimately show ?thesis
    using e d by blast
qed

section \<open>The ADX rule\<close>

text \<open>
  C8. With both directional indicators present as numbers, \<open>check_adx_strategy\<close> gives,
  for side NONE, BUY exactly when +DI > 20 and +DI > -DI, and SELL exactly when -DI > 20
  and -DI > +DI; for side LONG, EXIT exactly when +DI < 18 and otherwise no signal; for side
  SHORT, EXIT exactly when -DI < 18 and otherwise no signal. When +DI or -DI is absent
  (missing, \<open>None\<close> or a string) it gives no signal, whatever the side.
\<close>

theorem check_adx_strategy_rule:
  "(dict_get a ''di_plus'' = PNum dp \<and> dict_get a ''di_minus'' = PNum dm \<longrightarrow>
      (map_option action (check_adx_strategy a ''NONE'') = Some ''BUY'' \<longleftrightarrow> 20 < dp \<and> dm < dp)
      \<and> (map_option action (check_adx_strategy a ''NONE'') = Some ''SELL'' \<longleftrightarrow> 20 < dm \<and> dp < dm)
      \<and> (check_adx_strategy a ''NONE'' = None \<longleftrightarrow> \<not> (20 < dp \<and> dm < dp) \<and> \<not> (20 < dm \<and> dp < dm))
      \<and> (map_option action (check_adx_strategy a ''LONG'') = Some ''EXIT'' \<longleftrightarrow> dp < 18)
      \<and> (check_adx_strategy a ''LONG'' = None \<longleftrightarrow> \<not> dp < 18)
      \<and> (map_option action (check_adx_strategy a ''SHORT'') = Some ''EXIT'' \<longleftrightarrow> dm < 18)
      \<and> (check_adx_strategy a ''SHORT'' = None \<longleftrightarrow> \<not> dm < 18))
   \<and> ((\<forall>x. dict_get a ''di_plus'' \<noteq> PNum x) \<or> (\<forall>x. dict_get a ''di_minus'' \<noteq> PNum x) \<longrightarrow>
        check_adx_strategy a side = None)"
  by (auto simp: check_adx_strategy_def split: pyval.splits)

theorem check_adx_strategy_rule_witness:
  "map_option action
     (check_adx_strategy [''di_plus'' \<mapsto> PNum 25, ''di_minus'' \<mapsto> PNum 10] ''NONE'') = Some ''BUY''
   \<and> map_option action
     (check_adx_strategy [''di_plus'' \<mapsto> PNum 15, ''di_minus'' \<mapsto> PNum 10] ''LONG'') = Some ''EXIT''
   \<and> check_adx_strategy [''adx'' \<mapsto> PStr ''Not enough data'', ''di_plus'' \<mapsto> PNone,
        ''di_minus'' \<mapsto> PNone] ''NONE'' = None"
  using check_adx_strategy_rule [of "[''di_plus'' \<mapsto> PNum 25, ''di_minus'' \<mapsto> PNum 10]" 25 10]
    check_adx_strategy_rule [of "[''di_plus'' \<mapsto> PNum 15, ''di_minus'' \<mapsto> PNum 10]" 15 10]
    check_adx_strategy_rule [of "[''adx'' \<mapsto> PStr ''Not enough data'', ''di_plus'' \<mapsto> PNone,
        ''di_minus'' \<mapsto> PNone]" 0 0 "''NONE''"]
  by (simp add: dict_get_def)

section \<open>RSI\<close>

lemma length_diff: "length (diff xs) = length xs - 1"
  by (induction xs rule: diff.induct) simp_all

lemma rsi_loop_length: "length (rsi_loop period ud ds) = length ds"
  by (induction ds arbitrary: ud) (simp_all add: Let_def)

text \<open>The part of C7 that holds: the result is absent exactly below \<open>period + 1\<close> closes.\<close>

lemma calculate_rsi_None_iff:
  "0 < period \<Longrightarrow> calculate_rsi closes period = None \<longleftrightarrow> length closes < period + 1"
  by (simp add: calculate_rsi_def Let_def)

text \<open>
  C7 against the code. The seed of \<open>calculate_rsi\<close> sums \<open>deltas[:period+1]\<close>, fifteen
  deltas for the period 14, and divides by 14. On sixteen closes whose fifteenth delta is a
  fall, the seed's average loss is 1/14 where the first fourteen deltas have no loss at
  all, and the final RSI is 254800/2913 (about 87.47) where seeding from the first fourteen
  deltas, as the claim has it, gives 650/7 (about 92.86).
\<close>

theorem calculate_rsi_seed_off_by_one:
  "length rise_then_fall = 16
   \<and> take 14 (diff rise_then_fall) = [1, 1, 1, 1, 1, 1, 1, 1, 1, 1, 1, 1, 1, 1]
   \<and> rsi_seed (diff rise_then_fall) 14 = (1, 1 / 14)
   \<and> rsi_seed_spec (diff rise_then_fall) 14 = (1, 0)
   \<and> calculate_rsi rise_then_fall 14 = Some (254800 / 2913)
   \<and> rsi_spec rise_then_fall 14 = Some (650 / 7)"
  by (simp add: rise_then_fall_def rsi_seed_def rsi_seed_spec_def calculate_rsi_def rsi_spec_def
      rsi_step_def rsi_value_def Let_def)

section \<open>Subscribing\<close>

lemma scan_symbols_tokens:
  "fst (scan_symbols il st et ex tss (tokens, m, w)) =
     tokens @ filter (not_subscribed st et) (List.map_filter (\<lambda>ts. resolve_symbol il ts ex) tss)"
  by (induction tss arbitrary: tokens m w) (simp_all add: List.map_filter_simps split: option.split)

lemma set_map_filter_resolve:
  "set (List.map_filter (\<lambda>ts. resolve_symbol il ts ex) tss) =
     {t. \<exists>ts\<in>set tss. resolve_symbol il ts ex = Some t}"
  by (induction tss) (auto simp: List.map_filter_simps split: option.splits)

lemma set_add_monitor: "set (add_monitor mon ts) = set mon \<union> set ts"
  by (induction ts arbitrary: mon) auto

lemma not_subscribed_iff: "not_subscribed (subscribed_tokens s) et t \<longleftrightarrow> t \<notin> subscribed_under s et"
  by (simp add: not_subscribed_def subscribed_under_def split: option.split)

lemma scan_tokens_set:
  "set (fst (scan_symbols il (subscribed_tokens s) et ex tss ([], Map.empty, []))) =
     {t. \<exists>ts\<in>set tss. resolve_symbol il ts ex = Some t} - subscribed_under s et"
  by (auto simp: scan_symbols_tokens set_map_filter_resolve not_subscribed_iff)


lemma handle_subscribe_nothing_new:
  assumes "instrument_list s = Some il" "il \<noteq> []"
    and "fst (scan_symbols il (subscribed_tokens s) (exchange_type_of ex) ex tss
           ([], Map.empty, [])) = []"
  shows "subscribed_tokens (handle_subscribe ok tss ex s) = subscribed_tokens s
    \<and> monitor_symbols (handle_subscribe ok tss ex s) = monitor_symbols s
    \<and> feed (handle_subscribe ok tss ex s) = feed s
    \<and> last (sent (handle_subscribe ok tss ex s)) = No_new_subscriptions
    \<and> instrument_list (handle_subscribe ok tss ex s) = instrument_list s"
  using assms by (simp add: handle_subscribe_def Let_def send_def)

lemma handle_subscribe_new:
  assumes "instrument_list s = Some il" "il \<noteq> []"
    and "fst (scan_symbols il (subscribed_tokens s) (exchange_type_of ex) ex tss
           ([], Map.empty, [])) = toks"
    and "toks \<noteq> []"
  shows "subscribed_tokens (handle_subscribe True tss ex s) =
      (subscribed_tokens s)(exchange_type_of ex \<mapsto> subscribed_under s (exchange_type_of ex) \<union> set toks)
    \<and> monitor_symbols (handle_subscribe True tss ex s) = add_monitor (monitor_symbols s) toks
    \<and> feed (handle_subscribe True tss ex s) = feed s @ [(exchange_type_of ex, toks)]
    \<and> last (sent (handle_subscribe True tss ex s)) =
        Subscribed tss toks ex (length (add_monitor (monitor_symbols s) toks))
    \<and> instrument_list (handle_subscribe True tss ex s) = instrument_list s"
  using assms by (simp add: handle_subscribe_def Let_def send_def subscribed_under_def)

text \<open>
  C6, as the code has it. With the instrument list loaded and the feed call succeeding,
  \<open>handle_subscribe\<close> takes as new the tokens of the requested symbols that resolve in
  the given segment and are not yet subscribed under that segment's exchange type. It adds
  exactly these to the segment's set, leaving every other exchange type's set alone, and
  to the monitor list; its reply names exactly these; and it calls the feed once, for
  exactly these, or not at all when there are none. A second identical call, whether or
  not the feed would answer, replies with no new token, calls the feed no more and leaves
  the subscriptions as they are.
\<close>

theorem handle_subscribe_net_new:
  assumes "instrument_list s = Some il" "il \<noteq> []"
  shows "let et = exchange_type_of ex;
             new = {t. \<exists>ts\<in>set tss. resolve_symbol il ts ex = Some t} - subscribed_under s et;
             s' = handle_subscribe True tss ex s;
             s'' = handle_subscribe ok tss ex s'
         in subscribed_under s' et = subscribed_under s et \<union> new
            \<and> (\<forall>e. e \<noteq> et \<longrightarrow> subscribed_tokens s' e = subscribed_tokens s e)
            \<and> set (monitor_symbols s') = set (monitor_symbols s) \<union> new
            \<and> (\<exists>toks. set toks = new \<and> reply_tokens (last (sent s')) = Some toks
                  \<and> feed s' = feed s @ (if toks = [] then [] else [(et, toks)]))
            \<and> reply_tokens (last (sent s'')) = Some []
            \<and> feed s'' = feed s' \<and> subscribed_tokens s'' = subscribed_tokens s'"
proof -
  define et where "et = exchange_type_of ex"
  define new where "new = {t. \<exists>ts\<in>set tss. resolve_symbol il ts ex = Some t} - subscribed_under s et"
  define toks where "toks = fst (scan_symbols il (subscribed_tokens s) et ex tss ([], Map.empty, []))"
  define s' where "s' = handle_subscribe True tss ex s"
  define s'' where "s'' = handle_subscribe ok tss ex s'"
  have st: "set toks = new"
    by (simp add: toks_def new_def scan_tokens_set)
  have t3: "fst (scan_symbols il (subscribed_tokens s) (exchange_type_of ex) ex tss
              ([], Map.empty, [])) = toks"
    by (simp add: toks_def et_def)
  have first: "subscribed_under s' et = subscribed_under s et \<union> new
      \<and> (\<forall>e. e \<noteq> et \<longrightarrow> subscribed_tokens s' e = subscribed_tokens s e)
      \<and> set (monitor_symbols s') = set (monitor_symbols s) \<union> new
      \<and> reply_tokens (last (sent s')) = Some toks
      \<and> feed s' = feed s @ (if toks = [] then [] else [(et, toks)])
      \<and> instrument_list s' = Some il"
  proof (cases "toks = []")
    case True
    with st have "new = {}" by simp
    with True handle_subscribe_nothing_new [OF assms, of ex tss True] assms(1) t3
    show ?thesis
      by (simp add: s'_def et_def subscribed_under_def)
  next
    case False
    from handle_subscribe_new [OF assms t3 False] assms(1)
    show ?thesis
      unfolding s'_def [symmetric] et_def [symmetric]
      by (simp add: subscribed_under_def set_add_monitor st False)
  qed
  then have il': "instrument_list s' = Some il"
    by simp
  have "set (fst (scan_symbols il (subscribed_tokens s') et ex tss ([], Map.empty, []))) = {}"
    unfolding scan_tokens_set using first by (auto simp: new_def)
  then have none: "fst (scan_symbols il (subscribed_tokens s') (exchange_type_of ex) ex tss
           ([], Map.empty, [])) = []"
    by (simp add: et_def)
  from handle_subscribe_nothing_new [OF il' assms(2) none, of ok]
  have second: "reply_tokens (last (sent s'')) = Some [] \<and> feed s'' = feed s'
      \<and> subscribed_tokens s'' = subscribed_tokens s'"
    by (simp add: s''_def)
  from first second st show ?thesis
    unfolding Let_def et_def [symmetric] new_def [symmetric] s'_def [symmetric] s''_def [symmetric]
    by blast
qed


lemma exchange_type_of_examples:
  "exchange_type_of ''NSE'' = 1" "exchange_type_of ''NFO'' = 2"
  by (simp_all add: exchange_type_of_def exchange_map_def)

lemma example_subscribed_fields:
  "subscribed_tokens example_subscribed = [1 \<mapsto> {''3045''}]"
  "monitor_symbols example_subscribed = [''3045'']"
  "instrument_list example_subscribed = Some example_instruments"
  "feed example_subscribed = [(1, [''3045''])]"
  "sent example_subscribed = [Subscribed [''SBIN-EQ''] [''3045''] ''NSE'' 1]"
  by (simp_all add: example_subscribed_def handle_subscribe_def example_loaded_def
      example_instruments_def exchange_type_of_examples not_subscribed_def send_def Let_def)

theorem handle_subscribe_net_new_witness:
  "instrument_list example_loaded = Some example_instruments \<and> example_instruments \<noteq> []
   \<and> subscribed_under example_loaded 1 = {}
   \<and> subscribed_under example_subscribed 1 = {''3045''}
   \<and> monitor_symbols example_subscribed = [''3045'']
   \<and> feed example_subscribed = [(1, [''3045''])]
   \<and> reply_tokens (last (sent example_subscribed)) = Some [''3045'']
   \<and> reply_tokens (last (sent (handle_subscribe True [''SBIN-EQ''] ''NSE'' example_subscribed)))
       = Some []
   \<and> feed (handle_subscribe True [''SBIN-EQ''] ''NSE'' example_subscribed) = [(1, [''3045''])]"
proof -
  have a: "instrument_list example_loaded = Some example_instruments"
    and b: "example_instruments \<noteq> []"
    and c: "subscribed_under example_loaded 1 = {}"
    by (simp_all add: example_loaded_def example_instruments_def subscribed_under_def)
  have n: "{t. \<exists>ts\<in>set [''SBIN-EQ'']. resolve_symbol example_instruments ts ''NSE'' = Some t}
      = {''3045''}"
    by (auto simp: example_instruments_def)
  from handle_subscribe_net_new [OF a b, of "''NSE''" "[''SBIN-EQ'']" True]
  have "subscribed_under example_subscribed 1 = {''3045''}
    \<and> reply_tokens (last (sent (handle_subscribe True [''SBIN-EQ''] ''NSE'' example_subscribed)))
       = Some []
    \<and> feed (handle_subscribe True [''SBIN-EQ''] ''NSE'' example_subscribed) = feed example_subscribed"
    unfolding Let_def example_subscribed_def [symmetric] exchange_type_of_examples n c
    by simp
  with a b c show ?thesis
    by (simp add: example_subscribed_fields)
qed

text \<open>
  The claim as the spec words it skips a token already subscribed under any segment. The
  code looks only at the set of the segment asked for: with 3045 active under NSE
  (exchange type 1), subscribing to the NFO contract of the same token adds 3045 to the
  set of exchange type 2, names it in the reply as newly subscribed and sends it to the
  feed again.
\<close>

theorem handle_subscribe_other_segment_counterexample:
  "''3045'' \<in> subscribed_under example_subscribed 1
   \<and> resolve_symbol example_instruments ''SBIN24FUT'' ''NFO'' = Some ''3045''
   \<and> subscribed_tokens (handle_subscribe True [''SBIN24FUT''] ''NFO'' example_subscribed)
       = [1 \<mapsto> {''3045''}, 2 \<mapsto> {''3045''}]
   \<and> reply_tokens (last (sent (handle_subscribe True [''SBIN24FUT''] ''NFO'' example_subscribed)))
       = Some [''3045'']
   \<and> feed (handle_subscribe True [''SBIN24FUT''] ''NFO'' example_subscribed)
       = [(1, [''3045'']), (2, [''3045''])]"
  by (simp add: subscribed_under_def example_subscribed_fields handle_subscribe_def
      example_instruments_def exchange_type_of_examples not_subscribed_def send_def Let_def)

section \<open>The refresh cycle\<close>


lemma send_current_indicators_eq:
  "send_current_indicators g tok s =
     s\<lparr>sent := sent s @
        (case (if smart_api s then indicators_payload g (token_symbol_map s) tok else None) of
           None \<Rightarrow> [] | Some ev \<Rightarrow> [ev])\<rparr>"
  by (simp add: send_current_indicators_def send_def split: option.split)

lemma send_current_indicators_fields [simp]:
  "smart_api (send_current_indicators g tok s) = smart_api s"
  "token_symbol_map (send_current_indicators g tok s) = token_symbol_map s"
  by (simp_all add: send_current_indicators_eq)



















end
